theory Spec2Isabelle
  imports Complex_Main
begin

section \<open>Data model\<close>

text \<open>
  The service keeps three collections of documents: books, reviews and users.
  A document identifier (a Mongo ObjectId) is modelled as a natural number: the
  handlers only ever compare identifiers for equality, and a request carries an
  identifier in the form \<open>toString()\<close> gives.  A JavaScript Number that
  stays finite is modelled as an exact rational; the one place where the code can
  leave the finite numbers (the reading-stats division) uses \<open>jsnum\<close> below.
\<close>

type_synonym oid = nat

text \<open>Book schema (models/Books.js): the fields the handlers read or write.\<close>

record book_doc =
  book_id :: oid
  title :: string
  author :: string
  genre :: string
  averageRating :: rat
  ratingsCount :: nat
  addedBy :: oid
  featured :: bool

text \<open>
  Review schema (models/Review.js).  An entry of \<open>helpful\<close> is the pair
  (user, isHelpful); an entry of \<open>editHistory\<close> is the pair (editedAt, previousContent).
\<close>

record review_doc =
  review_id :: oid
  book :: oid
  user :: oid
  rating :: int
  rtitle :: string
  content :: string
  likes :: "oid list"
  helpful :: "(oid \<times> bool) list"
  editHistory :: "(nat \<times> string) list"

text \<open>User schema (the second model file).\<close>

record user_doc =
  user_id :: oid
  username :: string
  favoriteGenres :: "string list"
  readingGoal :: rat
  booksRead :: "oid list"
  wishlist :: "oid list"
  followers :: "oid list"
  following :: "oid list"
  role :: string

record db =
  Books :: "book_doc list"
  Reviews :: "review_doc list"
  Users :: "user_doc list"

text \<open>
  \<open>Model.findById\<close>: the first document of the collection with the given identifier.
  \<open>doc.save()\<close> on a loaded document writes it back over the stored one; on a new
  document it inserts at the end of the collection.
\<close>

definition findById :: "('a \<Rightarrow> oid) \<Rightarrow> oid \<Rightarrow> 'a list \<Rightarrow> 'a option" where
  "findById idf i ds = find (\<lambda>d. idf d = i) ds"

definition save_doc :: "('a \<Rightarrow> oid) \<Rightarrow> 'a \<Rightarrow> 'a list \<Rightarrow> 'a list" where
  "save_doc idf d ds =
     (if list_ex (\<lambda>x. idf x = idf d) ds
      then map (\<lambda>x. if idf x = idf d then d else x) ds
      else ds @ [d])"

section \<open>Rating aggregator (bookSchema.methods.updateAverageRating)\<close>

text \<open>\<open>Math.round\<close>: the nearest integer, a tie going towards plus infinity.\<close>

definition Math_round :: "rat \<Rightarrow> int" where
  "Math_round x = \<lfloor>x + 1 / 2\<rfloor>"

text \<open>
  The aggregation pipeline \<open>[{$match: {book: id}}, {$group: {_id: '$book',
  averageRating: {$avg: '$rating'}, ratingsCount: {$sum: 1}}}]\<close>: no group when no
  review matches, otherwise the one group of the book with the mean and the count.
\<close>

record rating_stats =
  stats_averageRating :: rat
  stats_ratingsCount :: nat

definition Review_aggregate :: "review_doc list \<Rightarrow> oid \<Rightarrow> rating_stats list" where
  "Review_aggregate rs bid =
     (let ms = filter (\<lambda>r. book r = bid) rs in
      if ms = [] then []
      else [\<lparr>stats_averageRating = of_int (sum_list (map rating ms)) / of_nat (length ms),
             stats_ratingsCount = length ms\<rparr>])"

text \<open>The fields \<open>updateAverageRating\<close> assigns to \<open>this\<close> before \<open>this.save()\<close>.\<close>

definition updateAverageRating :: "review_doc list \<Rightarrow> book_doc \<Rightarrow> book_doc" where
  "updateAverageRating rs b =
     (case Review_aggregate rs (book_id b) of
        st # _ \<Rightarrow> b\<lparr>averageRating := of_int (Math_round (stats_averageRating st * 10)) / 10,
                      ratingsCount := stats_ratingsCount st\<rparr>
      | [] \<Rightarrow> b\<lparr>averageRating := 0, ratingsCount := 0\<rparr>)"

text \<open>The ratings of the reviews of one book, in collection order.\<close>

definition ratings_of :: "review_doc list \<Rightarrow> oid \<Rightarrow> int list" where
  "ratings_of rs bid = map rating (filter (\<lambda>r. book r = bid) rs)"

text \<open>The arithmetic mean of a list of ratings, as the specification words it.\<close>

definition mean :: "int list \<Rightarrow> rat" where
  "mean xs = of_int (sum_list xs) / of_nat (length xs)"

section \<open>Responses\<close>

text \<open>
  What \<open>res.status(n).json(body)\<close> sends.  A document echoed in a body is kept as
  the document itself (\<open>JBook\<close>, \<open>JReview\<close>).
\<close>

datatype json =
    JNull
  | JBool bool
  | JNum rat
  | JStr string
  | JArr "json list"
  | JObj "(string \<times> json) list"
  | JBook book_doc
  | JReview review_doc

record response =
  status :: nat
  body :: json

definition json_message :: "string \<Rightarrow> json" where
  "json_message m = JObj [(''message'', JStr m)]"

definition reply :: "nat \<Rightarrow> string \<Rightarrow> response" where
  "reply code m = \<lparr>status = code, body = json_message m\<rparr>"

text \<open>The value of a field of a JSON object, \<open>None\<close> when the field is absent.\<close>

fun json_get :: "string \<Rightarrow> json \<Rightarrow> json option" where
  "json_get k (JObj kvs) = map_of kvs k"
| "json_get k _ = None"

section \<open>Review hooks (models/Review.js)\<close>

text \<open>
  The body the three post hooks share: \<open>Book.findById(id)\<close>, and when the book
  exists \<open>book.updateAverageRating()\<close>, which ends in \<open>this.save()\<close>.  Stored
  reviews satisfy their schema (ratings from 1 to 5), so the new average passes the
  book's own validators and the save goes through.
\<close>

definition recompute :: "db \<Rightarrow> oid \<Rightarrow> db" where
  "recompute s bid =
     (case findById book_id bid (Books s) of
        None \<Rightarrow> s
      | Some b \<Rightarrow> s\<lparr>Books := save_doc book_id (updateAverageRating (Reviews s) b) (Books s)\<rparr>)"

definition Review_post_save :: "db \<Rightarrow> review_doc \<Rightarrow> db" where
  "Review_post_save s this = recompute s (book this)"



section \<open>Review schema: setters, validators, unique index\<close>

text \<open>\<open>trim: true\<close> on title and content.\<close>

definition is_space :: "char \<Rightarrow> bool" where
  "is_space c = (c \<in> set [CHR '' '', CHR 0x09, CHR 0x0A, CHR 0x0B, CHR 0x0C, CHR 0x0D])"

definition trim :: "string \<Rightarrow> string" where
  "trim s = rev (dropWhile is_space (rev (dropWhile is_space s)))"

text \<open>The validators of the schema paths that request data reaches.\<close>

definition Review_schema_valid :: "review_doc \<Rightarrow> bool" where
  "Review_schema_valid r =
     (1 \<le> rating r \<and> rating r \<le> 5 \<and>
      rtitle r \<noteq> [] \<and> length (rtitle r) \<le> 100 \<and>
      content r \<noteq> [] \<and> length (content r) \<le> 2000)"

text \<open>
  The body of a creation request.  \<open>rb_book\<close> is \<open>None\<close> when the value is not an
  identifier, \<open>rb_rating\<close> is \<open>None\<close> when it is absent or not an integer; an absent
  string is empty.  The handlers spread \<open>req.body\<close> into the new document, so a body
  can also carry the lists that no validator looks at; an absent list is empty, which
  is the schema's default.
\<close>

record review_body =
  rb_book :: "oid option"
  rb_rating :: "int option"
  rb_title :: string
  rb_content :: string
  rb_likes :: "oid list"
  rb_helpful :: "(oid \<times> bool) list"
  rb_editHistory :: "(nat \<times> string) list"

text \<open>
  \<open>new Review({...req.body, book, user})\<close>, with \<open>book\<close>, \<open>user\<close> and the rating as the
  handler has them; the driver supplies the \<open>_id\<close>.
\<close>

definition new_Review :: "oid \<Rightarrow> oid \<Rightarrow> oid \<Rightarrow> int \<Rightarrow> review_body \<Rightarrow> review_doc" where
  "new_Review rid bid uid r rb =
     \<lparr>review_id = rid, book = bid, user = uid, rating = r,
      rtitle = trim (rb_title rb), content = trim (rb_content rb),
      likes = rb_likes rb, helpful = rb_helpful rb, editHistory = rb_editHistory rb\<rparr>"

text \<open>
  \<open>review.save()\<close> of a new document: schema validation, the unique indexes
  (\<open>_id\<close>, and the compound index on book and user), the insert, then the post-save
  hook.  \<open>None\<close> is a rejected promise.
\<close>

definition Review_insert :: "db \<Rightarrow> review_doc \<Rightarrow> db option" where
  "Review_insert s r =
     (if \<not> Review_schema_valid r then None
      else if list_ex (\<lambda>x. review_id x = review_id r) (Reviews s) then None
      else if list_ex (\<lambda>x. book x = book r \<and> user x = user r) (Reviews s) then None
      else Some (Review_post_save (s\<lparr>Reviews := Reviews s @ [r]\<rparr>) r))"

text \<open>
  \<open>review.save()\<close> of a loaded document (stored documents satisfy the schema, so
  validation passes): the write over the stored document, then the post-save hook.
\<close>

definition Review_save :: "db \<Rightarrow> review_doc \<Rightarrow> db" where
  "Review_save s r = Review_post_save (s\<lparr>Reviews := save_doc review_id r (Reviews s)\<rparr>) r"

section \<open>Review routes\<close>

text \<open>
  The express-validator chains of the two creation routes: \<open>rating\<close> an integer from 1
  to 5, \<open>title\<close> and \<open>content\<close> not empty and within their lengths; POST /api/reviews
  also wants \<open>book\<close> to be an identifier.
\<close>

definition validate_fields :: "review_body \<Rightarrow> bool" where
  "validate_fields rb =
     ((case rb_rating rb of None \<Rightarrow> False | Some r \<Rightarrow> 1 \<le> r \<and> r \<le> 5) \<and>
      rb_title rb \<noteq> [] \<and> length (rb_title rb) \<le> 100 \<and>
      rb_content rb \<noteq> [] \<and> length (rb_content rb) \<le> 2000)"

definition created :: "review_doc \<Rightarrow> response" where
  "created r = \<lparr>status = 201,
     body = JObj [(''message'', JStr ''Review created successfully''), (''review'', JReview r)]\<rparr>"

text \<open>
  POST /api/reviews.  \<open>me\<close> is \<open>req.user\<close>, \<open>rid\<close> the identifier of the new document.
  A rejected \<open>save\<close> lands in the handler's \<open>catch\<close> (500), and so does a missing user
  document, after the review was saved.
\<close>

definition createReview :: "db \<Rightarrow> user_doc \<Rightarrow> oid \<Rightarrow> review_body \<Rightarrow> db \<times> response" where
  "createReview s me rid rb =
     (case (rb_book rb, rb_rating rb) of
        (Some bookId, Some r) \<Rightarrow>
          if \<not> validate_fields rb then (s, reply 400 ''Validation failed'')
          else (case findById book_id bookId (Books s) of
            None \<Rightarrow> (s, reply 404 ''Book not found'')
          | Some b \<Rightarrow>
             (case find (\<lambda>x. book x = bookId \<and> user x = user_id me) (Reviews s) of
                Some existingReview \<Rightarrow> (s, reply 400 ''You have already reviewed this book'')
              | None \<Rightarrow>
                 (let review = new_Review rid bookId (user_id me) r rb in
                  case Review_insert s review of
                    None \<Rightarrow> (s, reply 500 ''Server error while creating review'')
                  | Some s1 \<Rightarrow>
                     (case findById user_id (user_id me) (Users s1) of
                        None \<Rightarrow> (s1, reply 500 ''Server error while creating review'')
                      | Some u \<Rightarrow>
                          if bookId \<in> set (booksRead u) then (s1, created review)
                          else (s1\<lparr>Users := save_doc user_id
                                   (u\<lparr>booksRead := booksRead u @ [bookId]\<rparr>) (Users s1)\<rparr>,
                                created review)))))
      | _ \<Rightarrow> (s, reply 400 ''Validation failed''))"

text \<open>POST /api/books/:id/reviews.  The book comes from the path; a missing user is skipped.\<close>

definition createBookReview :: "db \<Rightarrow> user_doc \<Rightarrow> oid \<Rightarrow> oid \<Rightarrow> review_body \<Rightarrow> db \<times> response" where
  "createBookReview s me rid bid rb =
     (case rb_rating rb of
        Some r \<Rightarrow>
          if \<not> validate_fields rb then (s, reply 400 ''Validation failed'')
          else (case findById book_id bid (Books s) of
            None \<Rightarrow> (s, reply 404 ''Book not found'')
          | Some b \<Rightarrow>
             (case find (\<lambda>x. book x = book_id b \<and> user x = user_id me) (Reviews s) of
                Some existingReview \<Rightarrow> (s, reply 400 ''You have already reviewed this book'')
              | None \<Rightarrow>
                 (let review = new_Review rid (book_id b) (user_id me) r rb in
                  case Review_insert s review of
                    None \<Rightarrow> (s, reply 500 ''Server error while creating review'')
                  | Some s1 \<Rightarrow>
                     (case findById user_id (user_id me) (Users s1) of
                        None \<Rightarrow> (s1, created review)
                      | Some u \<Rightarrow>
                          if book_id b \<in> set (booksRead u) then (s1, created review)
                          else (s1\<lparr>Users := save_doc user_id
                                   (u\<lparr>booksRead := booksRead u @ [book_id b]\<rparr>) (Users s1)\<rparr>,
                                created review)))))
      | None \<Rightarrow> (s, reply 400 ''Validation failed''))"



text \<open>
  The \<open>updates\<close> object the handler builds: the allowed fields that are defined, and
  \<open>$push: {editHistory: ...}\<close> when the content changes.
\<close>

record updates =
  set_rating :: "int option"
  set_title :: "string option"
  set_content :: "string option"
  push_editHistory :: "(nat \<times> string) option"


definition apply_updates :: "updates \<Rightarrow> review_doc \<Rightarrow> review_doc" where
  "apply_updates up r =
     r\<lparr>rating := (case set_rating up of None \<Rightarrow> rating r | Some x \<Rightarrow> x),
       rtitle := (case set_title up of None \<Rightarrow> rtitle r | Some t \<Rightarrow> trim t),
       content := (case set_content up of None \<Rightarrow> content r | Some c \<Rightarrow> trim c),
       editHistory := (case push_editHistory up of
                         None \<Rightarrow> editHistory r
                       | Some e \<Rightarrow> editHistory r @ [e])\<rparr>"






text \<open>
  POST /api/reviews/:id/helpful.  \<open>findIndex\<close> gives the first entry of the user, or
  \<open>None\<close> for -1; the entry found is overwritten in place, otherwise one is pushed.
  \<open>isHelpful\<close> is \<open>None\<close> when the body's value is not a boolean.
\<close>

fun findIndex :: "('a \<Rightarrow> bool) \<Rightarrow> 'a list \<Rightarrow> nat option" where
  "findIndex P [] = None"
| "findIndex P (x # xs) =
     (if P x then Some 0 else map_option Suc (findIndex P xs))"

definition castVote :: "(oid \<times> bool) list \<Rightarrow> oid \<Rightarrow> bool \<Rightarrow> (oid \<times> bool) list" where
  "castVote votes userId isHelpful =
     (case findIndex (\<lambda>vote. fst vote = userId) votes of
        Some existingVoteIndex \<Rightarrow>
          votes[existingVoteIndex := (fst (votes ! existingVoteIndex), isHelpful)]
      | None \<Rightarrow> votes @ [(userId, isHelpful)])"

definition helpfulVotes :: "(oid \<times> bool) list \<Rightarrow> nat" where
  "helpfulVotes votes = length (filter snd votes)"

definition markHelpful :: "db \<Rightarrow> user_doc \<Rightarrow> oid \<Rightarrow> bool option \<Rightarrow> db \<times> response" where
  "markHelpful s me rid isHelpful =
     (case isHelpful of
        None \<Rightarrow> (s, reply 400 ''Validation failed'')
      | Some v \<Rightarrow>
         (case findById review_id rid (Reviews s) of
            None \<Rightarrow> (s, reply 404 ''Review not found'')
          | Some review \<Rightarrow>
              (let review' = review\<lparr>helpful := castVote (helpful review) (user_id me) v\<rparr>;
                   totalVotes = length (helpful review')
               in (Review_save s review',
                   \<lparr>status = 200,
                    body = JObj [(''message'', JStr ''Helpfulness vote recorded''),
                                 (''helpfulVotes'', JNum (of_nat (helpfulVotes (helpful review')))),
                                 (''totalVotes'', JNum (of_nat totalVotes)),
                                 (''helpfulnessScore'',
                                    JNum (if totalVotes > 0
                                          then of_nat (helpfulVotes (helpful review')) / of_nat totalVotes * 100
                                          else 0))]\<rparr>))))"

section \<open>User routes\<close>



text \<open>
  GET /api/users/:id/reading-stats.  A JavaScript Number, with the values division
  can produce: \<open>n / 0\<close> is \<open>Infinity\<close>, \<open>-Infinity\<close> or (for \<open>0 / 0\<close>) \<open>NaN\<close>, and
  \<open>Math.round\<close> and \<open>*\<close> keep them.
\<close>

datatype jsnum = Finite rat | PosInfinity | NegInfinity | NaN

definition js_div :: "rat \<Rightarrow> rat \<Rightarrow> jsnum" where
  "js_div a b =
     (if b \<noteq> 0 then Finite (a / b)
      else if a > 0 then PosInfinity
      else if a < 0 then NegInfinity
      else NaN)"

fun js_times :: "jsnum \<Rightarrow> rat \<Rightarrow> jsnum" where
  "js_times (Finite a) c = Finite (a * c)"
| "js_times PosInfinity c = (if c > 0 then PosInfinity else if c < 0 then NegInfinity else NaN)"
| "js_times NegInfinity c = (if c > 0 then NegInfinity else if c < 0 then PosInfinity else NaN)"
| "js_times NaN c = NaN"

fun js_round :: "jsnum \<Rightarrow> jsnum" where
  "js_round (Finite a) = Finite (of_int (Math_round a))"
| "js_round x = x"

fun is_finite :: "jsnum \<Rightarrow> bool" where
  "is_finite (Finite a) = True"
| "is_finite _ = False"

text \<open>\<open>JSON.stringify\<close> writes a number that is not finite as \<open>null\<close>.\<close>

fun json_of_jsnum :: "jsnum \<Rightarrow> json" where
  "json_of_jsnum (Finite a) = JNum a"
| "json_of_jsnum _ = JNull"

text \<open>The schema's bounds on \<open>readingGoal\<close>: \<open>min: 0, max: 365\<close>.\<close>

definition readingGoal_valid :: "rat \<Rightarrow> bool" where
  "readingGoal_valid g = (0 \<le> g \<and> g \<le> 365)"

definition progressPercentage :: "user_doc \<Rightarrow> jsnum" where
  "progressPercentage u =
     js_round (js_times (js_div (of_nat (length (booksRead u))) (readingGoal u)) 100)"

text \<open>
  The handler, with the fields of \<open>readingStats\<close> that come from the user document
  (the review aggregations fill the others and do not enter \<open>progressPercentage\<close>).
\<close>

definition getReadingStats :: "db \<Rightarrow> oid \<Rightarrow> response" where
  "getReadingStats s userId =
     (case findById user_id userId (Users s) of
        None \<Rightarrow> reply 404 ''User not found''
      | Some u \<Rightarrow>
          \<lparr>status = 200,
           body = JObj [(''readingStats'',
                    JObj [(''booksRead'', JNum (of_nat (length (booksRead u)))),
                          (''readingGoal'', JNum (readingGoal u)),
                          (''progressPercentage'', json_of_jsnum (progressPercentage u))])]\<rparr>)"









section \<open>Book list (GET /api/books)\<close>



text \<open>\<open>parseInt(x) || d\<close>: the default for an absent parameter and for 0.\<close>

definition parseInt_or :: "int option \<Rightarrow> int \<Rightarrow> int" where
  "parseInt_or x d = (case x of None \<Rightarrow> d | Some n \<Rightarrow> if n = 0 then d else n)"





section \<open>Specification-side notions\<close>






text \<open>No two stored reviews share book and user.\<close>

definition one_review_per_pair :: "review_doc list \<Rightarrow> bool" where
  "one_review_per_pair rs = distinct (map (\<lambda>r. (book r, user r)) rs)"


section \<open>Example data\<close>

text \<open>
  The scenario of the specification: a book with the reviews 5, 4 and 3, to which a
  review of 2 is added and removed again; and a second, well-rated book.
\<close>

definition ex_book :: "oid \<Rightarrow> string \<Rightarrow> rat \<Rightarrow> nat \<Rightarrow> book_doc" where
  "ex_book i g a n =
     \<lparr>book_id = i, title = ''T'', author = ''A'', genre = g,
      averageRating = a, ratingsCount = n, addedBy = 100, featured = False\<rparr>"

definition ex_user :: "oid \<Rightarrow> user_doc" where
  "ex_user i =
     \<lparr>user_id = i, username = ''u'', favoriteGenres = [''Fiction''], readingGoal = 12,
      booksRead = [], wishlist = [], followers = [], following = [], role = ''user''\<rparr>"

definition ex_review :: "oid \<Rightarrow> oid \<Rightarrow> oid \<Rightarrow> int \<Rightarrow> review_doc" where
  "ex_review i b u r =
     \<lparr>review_id = i, book = b, user = u, rating = r, rtitle = ''t'', content = ''c'',
      likes = [], helpful = [], editHistory = []\<rparr>"

definition ex_db :: db where
  "ex_db =
     \<lparr>Books = [ex_book 1 ''Fiction'' 4 3, ex_book 2 ''Poetry'' (9 / 2) 7],
      Reviews = [ex_review 10 1 100 5, ex_review 11 1 101 4, ex_review 12 1 102 3],
      Users = [ex_user 100, ex_user 101, ex_user 102, ex_user 103]\<rparr>"

definition ex_body :: "oid \<Rightarrow> int \<Rightarrow> review_body" where
  "ex_body b r =
     \<lparr>rb_book = Some b, rb_rating = Some r, rb_title = ''Fine'', rb_content = ''Read it'',
      rb_likes = [], rb_helpful = [], rb_editHistory = []\<rparr>"







section \<open>Properties\<close>

subsection \<open>Rating aggregator\<close>

lemma Math_round_bounds:
  "of_int (Math_round x) - 1 / 2 \<le> x \<and> x < of_int (Math_round x) + 1 / 2"
  unfolding Math_round_def by linarith

subsection \<open>Collections\<close>

lemma findById_SomeD: "findById idf i ds = Some d \<Longrightarrow> d \<in> set ds \<and> idf d = i"
  unfolding findById_def by (induction ds) (auto split: if_splits)


lemma find_snoc:
  "find P (xs @ [y]) = (case find P xs of None \<Rightarrow> (if P y then Some y else None) | Some x \<Rightarrow> Some x)"
  by (induction xs) auto

lemma find_replace_same:
  "\<exists>x\<in>set ds. idf x = idf d \<Longrightarrow>
   find (\<lambda>x. idf x = idf d) (map (\<lambda>x. if idf x = idf d then d else x) ds) = Some d"
  by (induction ds) auto


lemma find_None_iff2: "find P xs = None \<longleftrightarrow> (\<forall>x\<in>set xs. \<not> P x)"
  by (induction xs) auto

lemma findById_save_doc_same: "findById idf (idf d) (save_doc idf d ds) = Some d"
proof (cases "\<exists>x\<in>set ds. idf x = idf d")
  case True
  then show ?thesis
    by (simp add: findById_def save_doc_def list_ex_iff find_replace_same)
next
  case False
  then have "find (\<lambda>x. idf x = idf d) ds = None"
    by (simp add: find_None_iff2)
  with False show ?thesis
    by (simp add: findById_def save_doc_def list_ex_iff find_snoc)
qed


subsection \<open>Recomputation after review mutations\<close>

lemma updateAverageRating_id: "book_id (updateAverageRating rs b) = book_id b"
  by (simp add: updateAverageRating_def split: list.splits)


lemma recompute_Reviews: "Reviews (recompute s bid) = Reviews s"
  by (simp add: recompute_def split: option.splits)



lemma Review_insert_SomeD:
  assumes "Review_insert s r = Some s1"
  shows "s1 = recompute (s\<lparr>Reviews := Reviews s @ [r]\<rparr>) (book r)"
    and "Review_schema_valid r"
    and "\<forall>x\<in>set (Reviews s). review_id x \<noteq> review_id r"
    and "\<forall>x\<in>set (Reviews s). \<not> (book x = book r \<and> user x = user r)"
  using assms
  by (auto simp: Review_insert_def Review_post_save_def list_ex_iff split: if_splits)

lemma status_reply [simp]: "status (reply c m) = c"
  by (simp add: reply_def)

lemma status_created [simp]: "status (created r) = 201"
  by (simp add: created_def)







lemma new_Review_sel [simp]:
  "book (new_Review rid bid uid r rb) = bid"
  "user (new_Review rid bid uid r rb) = uid"
  "review_id (new_Review rid bid uid r rb) = rid"
  "rating (new_Review rid bid uid r rb) = r"
  by (simp_all add: new_Review_def)



lemma apply_updates_sel [simp]:
  "book (apply_updates up r) = book r"
  "user (apply_updates up r) = user r"
  "review_id (apply_updates up r) = review_id r"
  "helpful (apply_updates up r) = helpful r"
  by (simp_all add: apply_updates_def)






subsection \<open>Recommendation filter\<close>


























subsection \<open>Follow toggle\<close>






subsection \<open>Review creation\<close>

lemma find_Some_list_ex: "list_ex P xs \<Longrightarrow> \<exists>x. find P xs = Some x"
  by (induction xs) auto

lemma createReview_duplicate:
  assumes "findById book_id bid (Books s) \<noteq> None"
    and "list_ex (\<lambda>x. book x = bid \<and> user x = user_id me) (Reviews s)"
    and "rb_book rb = Some bid"
  shows "fst (createReview s me rid rb) = s \<and> status (snd (createReview s me rid rb)) = 400"
proof -
  from assms(2) obtain x where "find (\<lambda>x. book x = bid \<and> user x = user_id me) (Reviews s) = Some x"
    using find_Some_list_ex by blast
  then show ?thesis
    using assms(1,3) by (auto simp: createReview_def split: option.splits)
qed

lemma createBookReview_duplicate:
  assumes "findById book_id bid (Books s) \<noteq> None"
    and "list_ex (\<lambda>x. book x = bid \<and> user x = user_id me) (Reviews s)"
  shows "fst (createBookReview s me rid bid rb) = s \<and>
         status (snd (createBookReview s me rid bid rb)) = 400"
proof -
  from assms(2) obtain x where "find (\<lambda>x. book x = bid \<and> user x = user_id me) (Reviews s) = Some x"
    using find_Some_list_ex by blast
  then show ?thesis
    using assms(1) by (auto simp: createBookReview_def dest: findById_SomeD split: option.splits)
qed

lemma Review_insert_Reviews:
  "Review_insert s r = Some s1 \<Longrightarrow> Reviews s1 = Reviews s @ [r]"
  by (auto simp: Review_insert_def Review_post_save_def recompute_Reviews split: if_splits)

lemma createReview_Reviews_cases:
  "Reviews (fst (createReview s me rid rb)) = Reviews s \<or>
   (\<exists>r s1. Review_insert s r = Some s1 \<and> Reviews (fst (createReview s me rid rb)) = Reviews s1)"
  unfolding createReview_def
  by (auto simp: Let_def split: option.splits if_splits)

lemma createBookReview_Reviews_cases:
  "Reviews (fst (createBookReview s me rid bid rb)) = Reviews s \<or>
   (\<exists>r s1. Review_insert s r = Some s1 \<and>
      Reviews (fst (createBookReview s me rid bid rb)) = Reviews s1)"
  unfolding createBookReview_def
  by (auto simp: Let_def split: option.splits if_splits)

lemma Review_insert_pair:
  "Review_insert s r = Some s1 \<Longrightarrow> one_review_per_pair (Reviews s) \<Longrightarrow>
   one_review_per_pair (Reviews s1)"
  using Review_insert_Reviews [of s r s1] Review_insert_SomeD(4) [of s r s1]
  by (auto simp: one_review_per_pair_def)



subsection \<open>Helpful votes\<close>

lemma findIndex_map_fst:
  "findIndex (\<lambda>vote. fst vote = u) vs = findIndex (\<lambda>k. k = u) (map fst vs)"
  by (induction vs) auto

lemma findIndex_None_iff: "findIndex P xs = None \<longleftrightarrow> (\<forall>x\<in>set xs. \<not> P x)"
  by (induction xs) auto

lemma findIndex_SomeD: "findIndex P xs = Some i \<Longrightarrow> i < length xs \<and> P (xs ! i)"
  by (induction xs arbitrary: i) (auto split: if_splits)

lemma findIndex_snoc_absent:
  "findIndex P xs = None \<Longrightarrow> P y \<Longrightarrow> findIndex P (xs @ [y]) = Some (length xs)"
  by (induction xs) (auto split: if_splits)

lemma map_fst_overwrite:
  "i < length vs \<Longrightarrow> map fst (vs[i := (fst (vs ! i), v)]) = map fst vs"
  by (simp add: map_update list_update_same_conv)

lemma castVote_existing:
  assumes "list_ex (\<lambda>vote. fst vote = u) vs"
  shows "length (castVote vs u v) = length vs" and "map fst (castVote vs u v) = map fst vs"
proof -
  from assms obtain i where i: "findIndex (\<lambda>vote. fst vote = u) vs = Some i"
    by (cases "findIndex (\<lambda>vote. fst vote = u) vs") (auto simp: findIndex_None_iff list_ex_iff)
  then have "i < length vs" by (simp add: findIndex_SomeD)
  with i show "length (castVote vs u v) = length vs" and "map fst (castVote vs u v) = map fst vs"
    by (simp_all add: castVote_def map_fst_overwrite)
qed

lemma castVote_new:
  "\<not> list_ex (\<lambda>vote. fst vote = u) vs \<Longrightarrow> castVote vs u v = vs @ [(u, v)]"
  by (simp add: castVote_def findIndex_None_iff [THEN iffD2] list_ex_iff)

lemma castVote_distinct:
  "distinct (map fst vs) \<Longrightarrow> distinct (map fst (castVote vs u v))"
proof (cases "list_ex (\<lambda>vote. fst vote = u) vs")
  case True
  assume "distinct (map fst vs)"
  then show ?thesis by (simp add: castVote_existing(2) [OF True])
next
  case False
  assume "distinct (map fst vs)"
  with False show ?thesis by (auto simp: castVote_new list_ex_iff)
qed

lemma castVote_member: "(u, v) \<in> set (castVote vs u v)"
proof (cases "findIndex (\<lambda>vote. fst vote = u) vs")
  case None
  then show ?thesis by (simp add: castVote_def)
next
  case (Some i)
  then have "i < length vs" "fst (vs ! i) = u" using findIndex_SomeD [OF Some] by simp_all
  with Some show ?thesis by (auto simp: castVote_def set_update_memI)
qed

lemma castVote_idem: "castVote (castVote vs u v) u v = castVote vs u v"
proof (cases "findIndex (\<lambda>vote. fst vote = u) vs")
  case None
  then have "findIndex (\<lambda>vote. fst vote = u) (vs @ [(u, v)]) = Some (length vs)"
    by (simp add: findIndex_snoc_absent)
  with None show ?thesis by (simp add: castVote_def)
next
  case (Some i)
  then have i: "i < length vs" by (simp add: findIndex_SomeD)
  let ?vs = "vs[i := (fst (vs ! i), v)]"
  have "findIndex (\<lambda>vote. fst vote = u) ?vs = Some i"
    using Some i by (simp add: findIndex_map_fst [of u ?vs] findIndex_map_fst [of u vs] map_fst_overwrite)
  with Some i show ?thesis by (simp add: castVote_def)
qed

lemma save_doc_idem: "save_doc idf d (save_doc idf d ds) = save_doc idf d ds"
proof (cases "\<exists>x\<in>set ds. idf x = idf d")
  case True
  then have "\<exists>x\<in>set (map (\<lambda>x. if idf x = idf d then d else x) ds). idf x = idf d"
    by auto
  with True show ?thesis
    by (simp add: save_doc_def list_ex_iff del: set_map)
next
  case False
  then have "map (\<lambda>x. if idf x = idf d then d else x) ds = ds"
    by (simp add: map_idI)
  with False show ?thesis
    by (simp add: save_doc_def list_ex_iff)
qed

lemma updateAverageRating_idem:
  "updateAverageRating rs (updateAverageRating rs b) = updateAverageRating rs b"
  by (cases "Review_aggregate rs (book_id b)") (simp_all add: updateAverageRating_def)

lemma recompute_idem: "recompute (recompute s bid) bid = recompute s bid"
proof (cases "findById book_id bid (Books s)")
  case None
  then show ?thesis by (simp add: recompute_def)
next
  case (Some b)
  let ?b = "updateAverageRating (Reviews s) b"
  let ?s1 = "s\<lparr>Books := save_doc book_id ?b (Books s)\<rparr>"
  have id: "book_id ?b = bid" using Some by (simp add: updateAverageRating_id findById_SomeD)
  have s1: "recompute s bid = ?s1" using Some by (simp add: recompute_def)
  have f: "findById book_id bid (Books ?s1) = Some ?b"
    using findById_save_doc_same [of book_id ?b "Books s"] id by simp
  have "recompute ?s1 bid = ?s1\<lparr>Books := save_doc book_id (updateAverageRating (Reviews ?s1) ?b) (Books ?s1)\<rparr>"
    unfolding recompute_def [of ?s1 bid] f by simp
  also have "\<dots> = ?s1"
    by (simp add: updateAverageRating_idem save_doc_idem)
  finally show ?thesis using s1 by simp
qed


lemma markHelpful_200D:
  assumes "status (snd (markHelpful s me rid (Some v))) = 200"
  shows "\<exists>r. findById review_id rid (Reviews s) = Some r \<and>
           markHelpful s me rid (Some v) =
             (recompute (s\<lparr>Reviews := save_doc review_id
                  (r\<lparr>helpful := castVote (helpful r) (user_id me) v\<rparr>) (Reviews s)\<rparr>) (book r),
              snd (markHelpful s me rid (Some v)))"
  using assms
  by (auto simp: markHelpful_def Let_def Review_save_def Review_post_save_def split: option.splits)

lemma markHelpful_twice:
  assumes "status (snd (markHelpful s me rid (Some v))) = 200"
  shows "markHelpful (fst (markHelpful s me rid (Some v))) me rid (Some v) = markHelpful s me rid (Some v)"
proof -
  from markHelpful_200D [OF assms] obtain r where
    r: "findById review_id rid (Reviews s) = Some r" by blast
  let ?r = "r\<lparr>helpful := castVote (helpful r) (user_id me) v\<rparr>"
  let ?s0 = "s\<lparr>Reviews := save_doc review_id ?r (Reviews s)\<rparr>"
  let ?s1 = "recompute ?s0 (book r)"
  have rid: "review_id ?r = rid" using r by (simp add: findById_SomeD)
  have e1: "markHelpful s me rid (Some v) = (?s1,
      \<lparr>status = 200,
       body = JObj [(''message'', JStr ''Helpfulness vote recorded''),
                    (''helpfulVotes'', JNum (of_nat (helpfulVotes (helpful ?r)))),
                    (''totalVotes'', JNum (of_nat (length (helpful ?r)))),
                    (''helpfulnessScore'',
                       JNum (if length (helpful ?r) > 0
                             then of_nat (helpfulVotes (helpful ?r)) / of_nat (length (helpful ?r)) * 100
                             else 0))]\<rparr>)"
    using r by (simp add: markHelpful_def Let_def Review_save_def Review_post_save_def)
  have f: "findById review_id rid (Reviews ?s1) = Some ?r"
    using findById_save_doc_same [of review_id ?r "Reviews s"] rid
    by (simp add: recompute_Reviews)
  have again: "?r\<lparr>helpful := castVote (helpful ?r) (user_id me) v\<rparr> = ?r"
    by (simp add: castVote_idem)
  have "?s1\<lparr>Reviews := save_doc review_id ?r (Reviews ?s1)\<rparr> = ?s1"
    by (simp add: recompute_Reviews save_doc_idem)
  then have s2: "recompute (?s1\<lparr>Reviews := save_doc review_id ?r (Reviews ?s1)\<rparr>) (book ?r) = ?s1"
    by (simp add: recompute_idem)
  have e2: "markHelpful ?s1 me rid (Some v) = (?s1, snd (markHelpful s me rid (Some v)))"
    using f again s2 e1
    by (simp add: markHelpful_def Let_def Review_save_def Review_post_save_def)
  show ?thesis using e1 e2 by simp
qed


lemma markHelpful_stored:
  assumes "status (snd (markHelpful s me rid (Some v))) = 200"
  shows "\<exists>r. findById review_id rid (Reviews s) = Some r \<and>
           findById review_id rid (Reviews (fst (markHelpful s me rid (Some v))))
             = Some (r\<lparr>helpful := castVote (helpful r) (user_id me) v\<rparr>)"
proof -
  from markHelpful_200D [OF assms] obtain r where
    r: "findById review_id rid (Reviews s) = Some r"
    and e: "markHelpful s me rid (Some v) =
             (recompute (s\<lparr>Reviews := save_doc review_id
                  (r\<lparr>helpful := castVote (helpful r) (user_id me) v\<rparr>) (Reviews s)\<rparr>) (book r),
              snd (markHelpful s me rid (Some v)))"
    by blast
  let ?r = "r\<lparr>helpful := castVote (helpful r) (user_id me) v\<rparr>"
  have rid: "review_id ?r = rid" using r by (simp add: findById_SomeD)
  have "Reviews (fst (markHelpful s me rid (Some v))) = save_doc review_id ?r (Reviews s)"
    by (subst e) (simp add: recompute_Reviews)
  then have "findById review_id rid (Reviews (fst (markHelpful s me rid (Some v)))) = Some ?r"
    using findById_save_doc_same [of review_id ?r "Reviews s"] rid by simp
  with r show ?thesis by blast
qed

subsection \<open>Pagination\<close>

lemma parseInt_or_valid:
  "(case x of None \<Rightarrow> True | Some n \<Rightarrow> 1 \<le> n) \<Longrightarrow>
   parseInt_or x d = (case x of None \<Rightarrow> d | Some n \<Rightarrow> n)"
  by (auto simp: parseInt_or_def split: option.splits)


section \<open>Claims\<close>

text \<open>
  Claim C1.  \<open>updateAverageRating\<close> on a book with the ratings \<open>r1..rN\<close> sets
  \<open>ratingsCount\<close> to \<open>N\<close> and \<open>averageRating\<close> to the mean rounded half-up to one
  decimal place: it is \<open>k / 10\<close> for the integer \<open>k = Math.round(mean * 10)\<close>, which is
  the integer with \<open>k - 1/2 \<le> 10 * mean < k + 1/2\<close>.  With no review both fields are 0.
\<close>

theorem updateAverageRating_mean:
  "ratingsCount (updateAverageRating rs b) = length (ratings_of rs (book_id b)) \<and>
   (if ratings_of rs (book_id b) = []
    then averageRating (updateAverageRating rs b) = 0
    else averageRating (updateAverageRating rs b)
           = of_int (Math_round (mean (ratings_of rs (book_id b)) * 10)) / 10 \<and>
         (\<exists>k::int. averageRating (updateAverageRating rs b) = of_int k / 10 \<and>
            of_int k - 1 / 2 \<le> 10 * mean (ratings_of rs (book_id b)) \<and>
            10 * mean (ratings_of rs (book_id b)) < of_int k + 1 / 2))"
proof (cases "filter (\<lambda>r. book r = book_id b) rs = []")
  case True
  then show ?thesis
    by (simp add: updateAverageRating_def Review_aggregate_def ratings_of_def)
next
  case False
  let ?m = "mean (ratings_of rs (book_id b))"
  have avg: "averageRating (updateAverageRating rs b) = of_int (Math_round (?m * 10)) / 10"
    using False
    by (simp add: updateAverageRating_def Review_aggregate_def ratings_of_def mean_def Let_def)
  have cnt: "ratingsCount (updateAverageRating rs b) = length (ratings_of rs (book_id b))"
    using False
    by (simp add: updateAverageRating_def Review_aggregate_def ratings_of_def Let_def)
  have bnd: "of_int (Math_round (?m * 10)) - 1 / 2 \<le> 10 * ?m \<and>
             10 * ?m < of_int (Math_round (?m * 10)) + 1 / 2"
    using Math_round_bounds [of "?m * 10"] by (simp add: mult.commute)
  have ne: "ratings_of rs (book_id b) \<noteq> []"
    using False by (simp add: ratings_of_def)
  show ?thesis
    using avg cnt bnd ne by auto
qed

text \<open>
  The scenario of the specification: the reviews 5, 4 and 3 give 4.0 and 3.
\<close>

theorem updateAverageRating_mean_witness:
  "ratingsCount (updateAverageRating (Reviews ex_db) (ex_book 1 ''Fiction'' 0 0)) = 3 \<and>
   averageRating (updateAverageRating (Reviews ex_db) (ex_book 1 ''Fiction'' 0 0)) = 4"
proof -
  have r: "ratings_of (Reviews ex_db) (book_id (ex_book 1 ''Fiction'' 0 0)) = [5, 4, 3]"
    by (simp add: ratings_of_def ex_db_def ex_review_def ex_book_def)
  have m: "Math_round (mean [5, 4, 3] * 10) = 40"
    by code_simp
  show ?thesis
    using updateAverageRating_mean [of "Reviews ex_db" "ex_book 1 ''Fiction'' 0 0"] r m
    by simp
qed








text \<open>
  Claim C5.  When the book is stored and the user already has a review of it, both
  creation routes answer 400 and leave the database unchanged; and neither route
  ever stores a second review for a pair of book and user: if no two stored reviews
  share book and user before a call, none do after it.
\<close>

theorem duplicate_review_rejected:
  "(findById book_id bid (Books s) \<noteq> None \<and>
    list_ex (\<lambda>x. book x = bid \<and> user x = user_id me) (Reviews s) \<longrightarrow>
      (rb_book rb = Some bid \<longrightarrow>
         fst (createReview s me rid rb) = s \<and> status (snd (createReview s me rid rb)) = 400) \<and>
      fst (createBookReview s me rid bid rb) = s \<and>
      status (snd (createBookReview s me rid bid rb)) = 400) \<and>
   (one_review_per_pair (Reviews s) \<longrightarrow>
      one_review_per_pair (Reviews (fst (createReview s me rid rb))) \<and>
      one_review_per_pair (Reviews (fst (createBookReview s me rid bid rb))))"
proof -
  have inv1: "one_review_per_pair (Reviews s) \<Longrightarrow>
      one_review_per_pair (Reviews (fst (createReview s me rid rb)))"
    using createReview_Reviews_cases [of s me rid rb] Review_insert_pair by force
  have inv2: "one_review_per_pair (Reviews s) \<Longrightarrow>
      one_review_per_pair (Reviews (fst (createBookReview s me rid bid rb)))"
    using createBookReview_Reviews_cases [of s me rid bid rb] Review_insert_pair by force
  show ?thesis
    using createReview_duplicate [of bid s me rb rid] createBookReview_duplicate [of bid s me rid rb]
      inv1 inv2 by blast
qed

text \<open>
  User 100, who has reviewed book 1, tries again on both routes.
\<close>

theorem duplicate_review_rejected_witness:
  "findById book_id 1 (Books ex_db) \<noteq> None \<and>
   list_ex (\<lambda>x. book x = 1 \<and> user x = user_id (ex_user 100)) (Reviews ex_db) \<and>
   rb_book (ex_body 1 2) = Some 1 \<and>
   one_review_per_pair (Reviews ex_db) \<and>
   fst (createReview ex_db (ex_user 100) 13 (ex_body 1 2)) = ex_db \<and>
   status (snd (createReview ex_db (ex_user 100) 13 (ex_body 1 2))) = 400 \<and>
   fst (createBookReview ex_db (ex_user 100) 13 1 (ex_body 1 2)) = ex_db \<and>
   status (snd (createBookReview ex_db (ex_user 100) 13 1 (ex_body 1 2))) = 400 \<and>
   one_review_per_pair (Reviews (fst (createReview ex_db (ex_user 100) 13 (ex_body 1 2)))) \<and>
   one_review_per_pair (Reviews (fst (createBookReview ex_db (ex_user 100) 13 1 (ex_body 1 2))))"
proof -
  have h1: "findById book_id 1 (Books ex_db) \<noteq> None" by code_simp
  have h2: "list_ex (\<lambda>x. book x = 1 \<and> user x = user_id (ex_user 100)) (Reviews ex_db)"
    by code_simp
  have h3: "rb_book (ex_body 1 2) = Some 1" by (simp add: ex_body_def)
  have h4: "one_review_per_pair (Reviews ex_db)" by code_simp
  show ?thesis
    using duplicate_review_rejected [of 1 ex_db "ex_user 100" "ex_body 1 2" 13] h1 h2 h3 h4
    by blast
qed

text \<open>
  Claim C6.  A helpful vote of a user who already has an entry overwrites that entry
  in place: the list keeps its length and its users.  A first vote appends one entry.
  After the vote the list holds the user's vote, a list with one entry per user stays
  so, and the same vote again changes nothing.  At the route: after a vote that
  answered 200, the stored review's list is the old one with the vote cast, and the
  same request again gives the same database and the same answer, with the same
  total of votes.
\<close>

theorem helpful_vote_per_user:
  "(list_ex (\<lambda>vote. fst vote = u) vs \<longrightarrow>
      length (castVote vs u v) = length vs \<and> map fst (castVote vs u v) = map fst vs) \<and>
   (\<not> list_ex (\<lambda>vote. fst vote = u) vs \<longrightarrow> castVote vs u v = vs @ [(u, v)]) \<and>
   (u, v) \<in> set (castVote vs u v) \<and>
   (distinct (map fst vs) \<longrightarrow> distinct (map fst (castVote vs u v))) \<and>
   castVote (castVote vs u v) u v = castVote vs u v \<and>
   length (castVote (castVote vs u v) u v) = length (castVote vs u v) \<and>
   (status (snd (markHelpful s me rid (Some v))) = 200 \<longrightarrow>
      (\<exists>r. findById review_id rid (Reviews s) = Some r \<and>
           findById review_id rid (Reviews (fst (markHelpful s me rid (Some v))))
             = Some (r\<lparr>helpful := castVote (helpful r) (user_id me) v\<rparr>)) \<and>
      markHelpful (fst (markHelpful s me rid (Some v))) me rid (Some v)
        = markHelpful s me rid (Some v))"
  using castVote_existing [of u vs v] castVote_new [of u vs v] castVote_member [of u v vs]
    castVote_distinct [of vs u v] castVote_idem [of vs u v]
    markHelpful_stored [of s me rid v] markHelpful_twice [of s me rid v]
  by simp

text \<open>
  Overwriting and appending on small lists, and user 101 voting twice on review 10.
\<close>

theorem helpful_vote_per_user_witness:
  "list_ex (\<lambda>vote. fst vote = 7) [(5 :: oid, True), (7, False)] \<and>
   \<not> list_ex (\<lambda>vote. fst vote = 7) [(5 :: oid, True)] \<and>
   distinct (map fst [(5 :: oid, True), (7, False)]) \<and>
   castVote [(5, True), (7, False)] 7 True = [(5, True), (7, True)] \<and>
   castVote [(5, True)] 7 True = [(5, True), (7, True)] \<and>
   length (castVote [(5, True), (7, False)] 7 True) = 2 \<and>
   distinct (map fst (castVote [(5, True), (7, False)] 7 True)) \<and>
   status (snd (markHelpful ex_db (ex_user 101) 10 (Some True))) = 200 \<and>
   markHelpful (fst (markHelpful ex_db (ex_user 101) 10 (Some True))) (ex_user 101) 10 (Some True)
     = markHelpful ex_db (ex_user 101) 10 (Some True) \<and>
   json_get ''totalVotes'' (body (snd (markHelpful (fst (markHelpful ex_db (ex_user 101) 10 (Some True)))
       (ex_user 101) 10 (Some True)))) = Some (JNum 1)"
proof -
  have h1: "list_ex (\<lambda>vote. fst vote = 7) [(5::nat, True), (7, False)]" by simp
  have h2: "\<not> list_ex (\<lambda>vote. fst vote = 7) [(5::nat, True)]" by simp
  have h3: "distinct (map fst [(5::nat, True), (7, False)])" by simp
  have h4: "status (snd (markHelpful ex_db (ex_user 101) 10 (Some True))) = 200"
    by code_simp
  have v1: "castVote [(5, True), (7, False)] 7 True = [(5, True), (7, True)]"
    by code_simp
  have v2: "castVote [(5, True)] 7 True = [(5, True), (7, True)]"
    by code_simp
  have v3: "json_get ''totalVotes'' (body (snd (markHelpful ex_db (ex_user 101) 10 (Some True))))
     = Some (JNum 1)"
    by code_simp
  note A = helpful_vote_per_user [of 7 "[(5, True), (7, False)]" True ex_db "ex_user 101" 10]
  have a: "length (castVote [(5, True), (7, False)] 7 True) = 2"
    and b: "distinct (map fst (castVote [(5, True), (7, False)] 7 True))"
    and c: "markHelpful (fst (markHelpful ex_db (ex_user 101) 10 (Some True))) (ex_user 101) 10 (Some True)
     = markHelpful ex_db (ex_user 101) 10 (Some True)"
    using A h1 h3 h4 by simp_all
  show ?thesis
    using h1 h2 h3 h4 v1 v2 v3 a b c by simp
qed








text \<open>
  Claim C10.  The schema admits \<open>readingGoal = 0\<close>, and \<open>progressPercentage\<close> is a
  finite number exactly when \<open>readingGoal\<close> is not 0: for a goal of 0 it is \<open>NaN\<close> with
  no book read and \<open>Infinity\<close> otherwise.  The handler has no guard: it answers 200
  with that value serialised.
\<close>

theorem progressPercentage_not_total:
  "readingGoal_valid 0 \<and>
   is_finite (progressPercentage u) = (readingGoal u \<noteq> 0) \<and>
   (readingGoal u = 0 \<longrightarrow>
      progressPercentage u = (if booksRead u = [] then NaN else PosInfinity)) \<and>
   (findById user_id uid (Users s) = Some u \<longrightarrow>
      status (getReadingStats s uid) = 200 \<and>
      json_get ''readingStats'' (body (getReadingStats s uid)) =
        Some (JObj [(''booksRead'', JNum (of_nat (length (booksRead u)))),
                    (''readingGoal'', JNum (readingGoal u)),
                    (''progressPercentage'', json_of_jsnum (progressPercentage u))]))"
  by (auto simp: readingGoal_valid_def progressPercentage_def js_div_def getReadingStats_def)

text \<open>
  A user with a reading goal of 0, without and with a book read.
\<close>

theorem progressPercentage_not_total_witness:
  "readingGoal ((ex_user 100)\<lparr>readingGoal := 0\<rparr>) = 0 \<and>
   readingGoal_valid (readingGoal ((ex_user 100)\<lparr>readingGoal := 0\<rparr>)) \<and>
   progressPercentage ((ex_user 100)\<lparr>readingGoal := 0\<rparr>) = NaN \<and>
   progressPercentage ((ex_user 100)\<lparr>readingGoal := 0, booksRead := [1]\<rparr>) = PosInfinity \<and>
   findById user_id 100 (Users (ex_db\<lparr>Users := [(ex_user 100)\<lparr>readingGoal := 0\<rparr>]\<rparr>))
     = Some ((ex_user 100)\<lparr>readingGoal := 0\<rparr>) \<and>
   status (getReadingStats (ex_db\<lparr>Users := [(ex_user 100)\<lparr>readingGoal := 0\<rparr>]\<rparr>) 100) = 200 \<and>
   json_get ''readingStats''
       (body (getReadingStats (ex_db\<lparr>Users := [(ex_user 100)\<lparr>readingGoal := 0\<rparr>]\<rparr>) 100)) =
     Some (JObj [(''booksRead'', JNum 0), (''readingGoal'', JNum 0),
                 (''progressPercentage'', JNull)])"
proof -
  let ?u = "(ex_user 100)\<lparr>readingGoal := 0\<rparr>"
  let ?v = "(ex_user 100)\<lparr>readingGoal := 0, booksRead := [1]\<rparr>"
  let ?s = "ex_db\<lparr>Users := [?u]\<rparr>"
  have g: "readingGoal ?u = 0" "readingGoal ?v = 0" "booksRead ?u = []" "booksRead ?v = [1]"
    by (simp_all add: ex_user_def)
  have f: "findById user_id 100 (Users ?s) = Some ?u"
    by (simp add: findById_def ex_user_def)
  note A = progressPercentage_not_total [of ?u 100 ?s]
  note B = progressPercentage_not_total [of ?v 100 ?s]
  have a: "progressPercentage ?u = NaN" using A g by simp
  have b: "progressPercentage ?v = PosInfinity" using B g by simp
  have c: "status (getReadingStats ?s 100) = 200 \<and>
      json_get ''readingStats'' (body (getReadingStats ?s 100)) =
        Some (JObj [(''booksRead'', JNum (of_nat (length (booksRead ?u)))),
                    (''readingGoal'', JNum (readingGoal ?u)),
                    (''progressPercentage'', json_of_jsnum (progressPercentage ?u))])"
    using A f by blast
  have v: "readingGoal_valid (readingGoal ?u)" using A g by simp
  show ?thesis
    using a b c f g v by simp
qed

end
